theory Spec2Isabelle
  imports Main "HOL-Library.Word"
begin

section \<open>The Cloudflare KV tool server (src/cloudflare/index.ts)\<close>

text \<open>
  The server is one TypeScript file: a static tool registry (\<open>KV_TOOLS\<close>), a dispatcher
  that routes a tool call by name, and four adapter functions that each issue one HTTP
  request and turn the response into a result envelope.  The embedding below follows the
  file top to bottom.  Asynchronous code is modelled sequentially, a rejected promise or a
  thrown exception as the left summand of a sum type, and the remote provider as a
  function from the outbound request to the outcome of \<open>fetch\<close>.
\<close>

subsection \<open>Tool registry\<close>

text \<open>
  A property of an input schema (\<open>{ type, description }\<close>), the input schema itself
  (\<open>{ type, properties, required? }\<close>; \<open>required\<close> is \<open>None\<close> where the literal has no
  such field) and a tool descriptor (\<open>{ name, description, inputSchema }\<close>).
\<close>

record schema_property =
  prop_type :: string
  prop_description :: string

record input_schema =
  schema_type :: string
  properties :: "(string \<times> schema_property) list"
  required :: "string list option"

record tool =
  name :: string
  description :: string
  inputSchema :: input_schema

definition KV_GET_TOOL :: tool where
  "KV_GET_TOOL = \<lparr>
     name = ''kv_get'',
     description = ''Get a value from Cloudflare KV store'',
     inputSchema = \<lparr>
       schema_type = ''object'',
       properties = [
         (''key'', \<lparr>prop_type = ''string'', prop_description = ''The key to retrieve''\<rparr>)],
       required = Some [''key'']\<rparr>\<rparr>"

definition KV_PUT_TOOL :: tool where
  "KV_PUT_TOOL = \<lparr>
     name = ''kv_put'',
     description = ''Put a value into Cloudflare KV store'',
     inputSchema = \<lparr>
       schema_type = ''object'',
       properties = [
         (''key'', \<lparr>prop_type = ''string'', prop_description = ''The key to store''\<rparr>),
         (''value'', \<lparr>prop_type = ''string'', prop_description = ''The value to store''\<rparr>),
         (''expirationTtl'',
            \<lparr>prop_type = ''number'',
             prop_description = ''Optional expiration time in seconds''\<rparr>)],
       required = Some [''key'', ''value'']\<rparr>\<rparr>"

definition KV_DELETE_TOOL :: tool where
  "KV_DELETE_TOOL = \<lparr>
     name = ''kv_delete'',
     description = ''Delete a key from Cloudflare KV store'',
     inputSchema = \<lparr>
       schema_type = ''object'',
       properties = [
         (''key'', \<lparr>prop_type = ''string'', prop_description = ''The key to delete''\<rparr>)],
       required = Some [''key'']\<rparr>\<rparr>"

definition KV_LIST_TOOL :: tool where
  "KV_LIST_TOOL = \<lparr>
     name = ''kv_list'',
     description = ''List keys in Cloudflare KV store'',
     inputSchema = \<lparr>
       schema_type = ''object'',
       properties = [
         (''prefix'',
            \<lparr>prop_type = ''string'', prop_description = ''Optional prefix to filter keys''\<rparr>),
         (''limit'',
            \<lparr>prop_type = ''number'',
             prop_description = ''Maximum number of keys to return''\<rparr>)],
       required = None\<rparr>\<rparr>"

definition KV_TOOLS :: "tool list" where
  "KV_TOOLS = [KV_GET_TOOL, KV_PUT_TOOL, KV_DELETE_TOOL, KV_LIST_TOOL]"

text \<open>
  The handler registered for \<open>ListToolsRequestSchema\<close>: it takes no input and answers
  \<open>{ tools: KV_TOOLS }\<close>.
\<close>

record list_tools_result =
  tools :: "tool list"

definition listTools :: list_tools_result where
  "listTools = \<lparr>tools = KV_TOOLS\<rparr>"

subsection \<open>JavaScript values and the runtime operations the file relies on\<close>

text \<open>
  TypeScript types are erased at run time, and the dispatcher only asserts the shape of
  the arguments (\<open>as { key: string }\<close>), so tool arguments and the parsed JSON body of a
  response are modelled as untyped JSON-like values.  \<open>JUndefined\<close> stands for an absent
  argument or property.  Strings are byte strings holding UTF-8 text.  An object is the
  list of its own properties in enumeration order, with distinct keys; since the values
  come from JSON text, no property value is callable.

  A number is one of three kinds.  \<open>JNum n\<close> is an integer \<open>n\<close> with
  \<open>-2\<^sup>5\<^sup>3 \<le> n < 2\<^sup>5\<^sup>3\<close>: each of these is exactly a double, and its string form is its
  decimal digits.  They are written as 54-bit words read as signed (\<open>sint\<close>), so that a
  numeral in the range denotes itself and no other integer is in the type; \<open>-0\<close> is \<open>0\<close>.
  \<open>JNumOther s\<close> is any other finite number (non-integral, or of larger magnitude), which
  is never zero; the program only ever converts such a number to a string, so it is
  given by its string form \<open>s\<close>, the result of \<open>Number.prototype.toString\<close>, which the
  model does not compute.  \<open>JInfinity\<close> and \<open>JNegInfinity\<close> are what JSON text such as
  \<open>1e999\<close> parses to (\<open>NaN\<close> cannot come from JSON text).
\<close>

type_synonym safe_integer = "54 word"

datatype jsval =
    JUndefined
  | JNull
  | JBool bool
  | JNum safe_integer
  | JNumOther string
  | JInfinity
  | JNegInfinity
  | JStr string
  | JArr "jsval list"
  | JObj "(string \<times> jsval) list"

text \<open>
  What a \<open>throw\<close> or a rejected promise carries, as far as the \<open>catch\<close> clause of the
  dispatcher can tell: an instance of \<open>Error\<close> with its \<open>message\<close>, or any other value,
  represented by its string form \<open>String(error)\<close>.  Every exception raised by the runtime
  functions below is a \<open>TypeError\<close>, an \<open>Error\<close> instance; its message is the one of V8
  (Node.js), which names the property read and the source text of the expression.  No
  property proved below depends on the wording.
\<close>

datatype thrown = JsError string | JsNonError string

definition TypeError :: "string \<Rightarrow> thrown" where
  "TypeError message = JsError message"

definition quoted :: "string \<Rightarrow> string" where
  "quoted s = [CHR 0x27] @ s @ [CHR 0x27]"

definition null_or_undefined :: "jsval \<Rightarrow> string" where
  "null_or_undefined v = (if v = JNull then ''null'' else ''undefined'')"

definition cannot_read :: "jsval \<Rightarrow> string \<Rightarrow> thrown" where
  "cannot_read v k =
     TypeError (''Cannot read properties of '' @ null_or_undefined v
                @ '' (reading '' @ quoted k @ '')'')"

definition not_a_function :: "string \<Rightarrow> thrown" where
  "not_a_function callee = TypeError (callee @ '' is not a function'')"

text \<open>Sequencing of steps that may throw: the first exception ends the computation.\<close>

definition and_then :: "thrown + 'a \<Rightarrow> ('a \<Rightarrow> thrown + 'b) \<Rightarrow> thrown + 'b" where
  "and_then r f = (case r of Inl e \<Rightarrow> Inl e | Inr x \<Rightarrow> f x)"

fun collect :: "(thrown + 'a) list \<Rightarrow> thrown + 'a list" where
  "collect [] = Inr []"
| "collect (r # rs) =
     (case r of
        Inl e \<Rightarrow> Inl e
      | Inr x \<Rightarrow> (case collect rs of Inl e \<Rightarrow> Inl e | Inr xs \<Rightarrow> Inr (x # xs)))"

fun join_strings :: "string \<Rightarrow> string list \<Rightarrow> string" where
  "join_strings sep [] = []"
| "join_strings sep [s] = s"
| "join_strings sep (s # t # ss) = s @ sep @ join_strings sep (t # ss)"

text \<open>Truthiness (\<open>ToBoolean\<close>), as tested by \<open>if (x)\<close>, \<open>!x\<close> and \<open>x ? a : b\<close>.\<close>

fun truthy :: "jsval \<Rightarrow> bool" where
  "truthy JUndefined = False"
| "truthy JNull = False"
| "truthy (JBool b) = b"
| "truthy (JNum n) = (n \<noteq> 0)"
| "truthy (JNumOther s) = True"
| "truthy JInfinity = True"
| "truthy JNegInfinity = True"
| "truthy (JStr s) = (s \<noteq> [])"
| "truthy (JArr vs) = True"
| "truthy (JObj fs) = True"

text \<open>
  \<open>Number.prototype.toString\<close> on an integer of the range above: its decimal digits,
  after a minus sign when it is negative.
\<close>

fun digits :: "nat \<Rightarrow> string" where
  "digits n =
     (if n < 10 then [''0123456789'' ! n]
      else digits (n div 10) @ [''0123456789'' ! (n mod 10)])"

definition Number_toString :: "safe_integer \<Rightarrow> string" where
  "Number_toString n =
     (if sint n < 0 then ''-'' @ digits (nat (- sint n)) else digits (nat (sint n)))"

text \<open>
  \<open>ToString\<close>, applied by a template literal \<open>`${v}`\<close>, by \<open>Array.prototype.join\<close> to
  an element and by \<open>URLSearchParams.append\<close> to its value.  An array is converted by
  \<open>Array.prototype.toString\<close>, that is \<open>join(",")\<close>, where an \<open>undefined\<close> or \<open>null\<close>
  element gives the empty string.  An object is converted by \<open>Object.prototype.toString\<close>
  and gives \<open>[object Object]\<close>, unless an own property named \<open>toString\<close> shadows that
  method: the property is not callable, \<open>valueOf\<close> does not return a primitive, and the
  conversion throws a \<open>TypeError\<close>.
\<close>

fun ToString :: "jsval \<Rightarrow> thrown + string" where
  "ToString JUndefined = Inr ''undefined''"
| "ToString JNull = Inr ''null''"
| "ToString (JBool b) = Inr (if b then ''true'' else ''false'')"
| "ToString (JNum n) = Inr (Number_toString n)"
| "ToString (JNumOther s) = Inr s"
| "ToString JInfinity = Inr ''Infinity''"
| "ToString JNegInfinity = Inr ''-Infinity''"
| "ToString (JStr s) = Inr s"
| "ToString (JArr vs) =
     (case collect (map (\<lambda>v. if v = JUndefined \<or> v = JNull then Inr [] else ToString v) vs) of
        Inl e \<Rightarrow> Inl e
      | Inr ss \<Rightarrow> Inr (join_strings '','' ss))"
| "ToString (JObj fs) =
     (if ''toString'' \<in> fst ` set fs
      then Inl (TypeError ''Cannot convert object to primitive value'')
      else Inr ''[object Object]'')"

text \<open>\<open>Array.prototype.join(sep)\<close> on the elements of an array.\<close>

definition Array_join :: "jsval list \<Rightarrow> string \<Rightarrow> thrown + string" where
  "Array_join vs sep =
     (case collect (map (\<lambda>v. if v = JUndefined \<or> v = JNull then Inr [] else ToString v) vs) of
        Inl e \<Rightarrow> Inl e
      | Inr ss \<Rightarrow> Inr (join_strings sep ss))"

text \<open>
  Reading a property \<open>v.k\<close>, and the destructuring \<open>const { k, \<dots> } = v\<close> of the
  expression with source text \<open>src\<close>: both throw a \<open>TypeError\<close> when \<open>v\<close> is \<open>undefined\<close>
  or \<open>null\<close>.  Otherwise (\<open>GetV\<close>) an object gives the value of its own property (or
  \<open>undefined\<close>), and a primitive or an array gives \<open>undefined\<close>: the property names read
  by the program (\<open>key\<close>, \<open>value\<close>, \<open>expirationTtl\<close>, \<open>prefix\<close>, \<open>limit\<close>, \<open>success\<close>,
  \<open>errors\<close>, \<open>result\<close>, \<open>name\<close>) are not defined on any built-in prototype of these
  values.
\<close>

definition GetV :: "jsval \<Rightarrow> string \<Rightarrow> jsval" where
  "GetV v k =
     (case v of
        JObj fs \<Rightarrow> (case map_of fs k of None \<Rightarrow> JUndefined | Some x \<Rightarrow> x)
      | _ \<Rightarrow> JUndefined)"

definition get_property :: "jsval \<Rightarrow> string \<Rightarrow> thrown + jsval" where
  "get_property v k =
     (if v = JUndefined \<or> v = JNull then Inl (cannot_read v k) else Inr (GetV v k))"

definition destructure :: "string \<Rightarrow> jsval \<Rightarrow> string \<Rightarrow> thrown + unit" where
  "destructure src v k =
     (if v = JUndefined \<or> v = JNull
      then Inl (TypeError (''Cannot destructure property '' @ quoted k @ '' of '' @ quoted src
                           @ '' as it is '' @ null_or_undefined v @ ''.''))
      else Inr ())"

text \<open>
  The method call \<open>v.toString()\<close> on the expression with source text \<open>src\<close>.  On
  \<open>undefined\<close> and \<open>null\<close> the property read throws; on an object with an own (not
  callable) property \<open>toString\<close> the call throws; every other value has the built-in
  method of its kind, which gives the same string as \<open>ToString\<close>.
\<close>

definition toString_method :: "string \<Rightarrow> jsval \<Rightarrow> thrown + string" where
  "toString_method src v =
     (case v of
        JUndefined \<Rightarrow> Inl (cannot_read v ''toString'')
      | JNull \<Rightarrow> Inl (cannot_read v ''toString'')
      | JObj fs \<Rightarrow>
          (if ''toString'' \<in> fst ` set fs
           then Inl (not_a_function (src @ ''.toString''))
           else Inr ''[object Object]'')
      | _ \<Rightarrow> ToString v)"

text \<open>
  The method call \<open>v.join(sep)\<close>: only an array has the method (a property \<open>join\<close> of a
  parsed JSON object is not callable).
\<close>

definition join_method :: "string \<Rightarrow> jsval \<Rightarrow> string \<Rightarrow> thrown + string" where
  "join_method src v sep =
     (case v of
        JUndefined \<Rightarrow> Inl (cannot_read v ''join'')
      | JNull \<Rightarrow> Inl (cannot_read v ''join'')
      | JArr vs \<Rightarrow> Array_join vs sep
      | _ \<Rightarrow> Inl (not_a_function (src @ ''.join'')))"

text \<open>
  The method call \<open>v.map(f)\<close> for a callback that may throw: only an array has the
  method; the callback is applied to the elements from left to right.
\<close>

definition map_method ::
    "string \<Rightarrow> jsval \<Rightarrow> (jsval \<Rightarrow> thrown + jsval) \<Rightarrow> thrown + jsval" where
  "map_method src v f =
     (case v of
        JUndefined \<Rightarrow> Inl (cannot_read v ''map'')
      | JNull \<Rightarrow> Inl (cannot_read v ''map'')
      | JArr vs \<Rightarrow> (case collect (map f vs) of Inl e \<Rightarrow> Inl e | Inr ws \<Rightarrow> Inr (JArr ws))
      | _ \<Rightarrow> Inl (not_a_function (src @ ''.map'')))"

text \<open>
  \<open>URLSearchParams\<close>: the list of name-value pairs, \<open>append\<close> (which converts the value
  with \<open>ToString\<close>), and the string form used by the template literal \<open>`?${params}`\<close>,
  the \<open>application/x-www-form-urlencoded\<close> serialisation: a space becomes \<open>+\<close>, the
  ASCII letters and digits and \<open>* - . _\<close> stay, every other byte is percent-encoded.
\<close>

type_synonym URLSearchParams = "(string \<times> string) list"

definition URLSearchParams_append ::
    "URLSearchParams \<Rightarrow> string \<Rightarrow> jsval \<Rightarrow> thrown + URLSearchParams" where
  "URLSearchParams_append params k v = and_then (ToString v) (\<lambda>s. Inr (params @ [(k, s)]))"

definition percent_encode :: "char \<Rightarrow> string" where
  "percent_encode c =
     [CHR ''%'',
      ''0123456789ABCDEF'' ! (of_char c div 16),
      ''0123456789ABCDEF'' ! (of_char c mod 16)]"

definition urlencode_byte :: "char \<Rightarrow> string" where
  "urlencode_byte c =
     (if c = CHR '' '' then ''+''
      else if c \<in> set ''ABCDEFGHIJKLMNOPQRSTUVWXYZabcdefghijklmnopqrstuvwxyz0123456789*-._''
      then [c]
      else percent_encode c)"

definition urlencode :: "string \<Rightarrow> string" where
  "urlencode s = concat (map urlencode_byte s)"

definition URLSearchParams_toString :: "URLSearchParams \<Rightarrow> string" where
  "URLSearchParams_toString params =
     join_strings ''&'' (map (\<lambda>(k, v). urlencode k @ ''='' @ urlencode v) params)"

text \<open>
  \<open>JSON.stringify(value, null, 2)\<close>.  \<open>QuoteJSONString\<close> escapes the double quote, the
  backslash and the control characters.  \<open>SerializeJSON ind v\<close> is the text of \<open>v\<close> at
  the current indentation \<open>ind\<close>; each nesting level adds the gap of two spaces.  An
  \<open>undefined\<close> element of an array is written \<open>null\<close>, as is a number that is not
  finite; a property whose value is \<open>undefined\<close> is left out.
\<close>

definition json_escape :: "char \<Rightarrow> string" where
  "json_escape c =
     (if c = CHR 0x22 then [CHR 0x5C, CHR 0x22]
      else if c = CHR 0x5C then [CHR 0x5C, CHR 0x5C]
      else if c = CHR 0x08 then [CHR 0x5C, CHR ''b'']
      else if c = CHR 0x0C then [CHR 0x5C, CHR ''f'']
      else if c = CHR 0x0A then [CHR 0x5C, CHR ''n'']
      else if c = CHR 0x0D then [CHR 0x5C, CHR ''r'']
      else if c = CHR 0x09 then [CHR 0x5C, CHR ''t'']
      else if (of_char c :: nat) < 32
      then [CHR 0x5C, CHR ''u'', CHR ''0'', CHR ''0'',
            ''0123456789abcdef'' ! (of_char c div 16),
            ''0123456789abcdef'' ! (of_char c mod 16)]
      else [c])"

definition QuoteJSONString :: "string \<Rightarrow> string" where
  "QuoteJSONString s = [CHR 0x22] @ concat (map json_escape s) @ [CHR 0x22]"

fun SerializeJSON :: "string \<Rightarrow> jsval \<Rightarrow> string" where
  "SerializeJSON ind JUndefined = ''null''"
| "SerializeJSON ind JNull = ''null''"
| "SerializeJSON ind (JBool b) = (if b then ''true'' else ''false'')"
| "SerializeJSON ind (JNum n) = Number_toString n"
| "SerializeJSON ind (JNumOther s) = s"
| "SerializeJSON ind JInfinity = ''null''"
| "SerializeJSON ind JNegInfinity = ''null''"
| "SerializeJSON ind (JStr s) = QuoteJSONString s"
| "SerializeJSON ind (JArr vs) =
     (if vs = [] then ''[]''
      else ''['' @ [CHR 0x0A] @ (ind @ ''  '')
           @ join_strings ('','' @ [CHR 0x0A] @ (ind @ ''  ''))
               (map (SerializeJSON (ind @ ''  '')) vs)
           @ [CHR 0x0A] @ ind @ '']'')"
| "SerializeJSON ind (JObj fs) =
     (if filter (\<lambda>f. snd f \<noteq> JUndefined) fs = [] then ''{}''
      else ''{'' @ [CHR 0x0A] @ (ind @ ''  '')
           @ join_strings ('','' @ [CHR 0x0A] @ (ind @ ''  ''))
               (map (\<lambda>f. QuoteJSONString (fst f) @ '': '' @ SerializeJSON (ind @ ''  '') (snd f))
                  (filter (\<lambda>f. snd f \<noteq> JUndefined) fs))
           @ [CHR 0x0A] @ ind @ ''}'')"

text \<open>The program applies it to an array only, so the result is always a string.\<close>

definition JSON_stringify_2 :: "jsval \<Rightarrow> string" where
  "JSON_stringify_2 v = SerializeJSON [] v"

subsection \<open>Configuration\<close>

text \<open>
  \<open>getConfig\<close> reads three environment variables; the check for missing ones is
  commented out in the source, so each field may be \<open>undefined\<close> (\<open>None\<close>).  A template
  literal writes such a field as \<open>undefined\<close>.
\<close>

record config =
  accountId :: "string option"
  apiToken :: "string option"
  namespaceId :: "string option"

definition getConfig :: "(string \<Rightarrow> string option) \<Rightarrow> config" where
  "getConfig env = \<lparr>
     accountId = env ''CLOUDFLARE_ACCOUNT_ID'',
     apiToken = env ''CLOUDFLARE_API_TOKEN'',
     namespaceId = env ''CLOUDFLARE_KV_NAMESPACE_ID''\<rparr>"

definition template :: "string option \<Rightarrow> string" where
  "template field = (case field of None \<Rightarrow> ''undefined'' | Some s \<Rightarrow> s)"

subsection \<open>HTTP: what \<open>fetch\<close> is given, what the provider sees, what comes back\<close>

text \<open>
  The second argument of \<open>fetch\<close> as the handlers build it: \<open>method\<close> (here
  \<open>http_method\<close>), \<open>headers\<close>, \<open>body\<close> and, in \<open>handlePut\<close>, a field \<open>query\<close>.
\<close>

record fetch_init =
  http_method :: "string option"
  headers :: "(string \<times> string) list"
  body :: "jsval option"
  query :: "(string \<times> jsval) list option"

text \<open>
  The request as \<open>fetch\<close> is asked to make it, and the response as the handlers read it:
  \<open>statusText\<close>, and the outcomes of \<open>response.text()\<close> and \<open>response.json()\<close>, which may
  reject.  \<open>ok\<close> is node-fetch's getter: the status is in the range 200 to 299.

  \<open>req_url\<close> is the URL string handed to \<open>fetch\<close>.  node-fetch parses this string as a
  URL before it sends the request.  That leaves unchanged a string made of the literals
  of the source, of identifiers of letters, digits, \<open>-\<close> and \<open>_\<close>, and of a form-urlencoded
  query; other characters are rewritten (a space in a key is sent as \<open>%20\<close>, a \<open>?\<close> or
  \<open>#\<close> in a key or in a configuration value ends the path).  This step is not modelled:
  the provider of the model stands for everything behind the call of \<open>fetch\<close>, the URL
  parser included, and a statement about the URL that is sent is made only for strings
  of the first kind (\<open>plain_config\<close> below).
\<close>

record http_request =
  req_url :: string
  req_method :: string
  req_headers :: "(string \<times> string) list"
  req_body :: "jsval option"

record http_response =
  status :: nat
  statusText :: string
  text_result :: "thrown + string"
  json_result :: "thrown + jsval"

definition ok :: "http_response \<Rightarrow> bool" where
  "ok response = (200 \<le> status response \<and> status response < 300)"

type_synonym provider = "http_request \<Rightarrow> thrown + http_response"

text \<open>
  \<open>fetch\<close> is imported from the package node-fetch.  Its outcome is determined by the
  URL string it is given and by the \<open>method\<close> (\<open>GET\<close> by default), \<open>headers\<close> and
  \<open>body\<close> of its second argument; the options it reads do not include \<open>query\<close>, so a
  field of that name has no effect on the request.  The promise resolves to a response
  whatever its status, or rejects.
\<close>

definition fetch :: "provider \<Rightarrow> string \<Rightarrow> fetch_init \<Rightarrow> thrown + http_response" where
  "fetch provider url init =
     provider \<lparr>
       req_url = url,
       req_method = (case http_method init of None \<Rightarrow> ''GET'' | Some m \<Rightarrow> m),
       req_headers = headers init,
       req_body = body init\<rparr>"

text \<open>
  The query component of a URL: what follows the first \<open>?\<close>, up to a \<open>#\<close>; empty when
  the URL has no \<open>?\<close>.  A configuration is plain when its account and namespace
  identifiers, where present, consist of letters, digits, \<open>-\<close> and \<open>_\<close>, as the
  identifiers issued by the provider do (an absent one is written \<open>undefined\<close>).
\<close>

definition url_query :: "string \<Rightarrow> string" where
  "url_query url =
     takeWhile (\<lambda>c. c \<noteq> CHR ''#'')
       (drop 1 (dropWhile (\<lambda>c. c \<noteq> CHR ''?'') (takeWhile (\<lambda>c. c \<noteq> CHR ''#'') url)))"

definition url_safe_id :: "string option \<Rightarrow> bool" where
  "url_safe_id field =
     list_all
       (\<lambda>c. c \<in> set ''ABCDEFGHIJKLMNOPQRSTUVWXYZabcdefghijklmnopqrstuvwxyz0123456789-_'')
       (case field of None \<Rightarrow> [] | Some s \<Rightarrow> s)"

definition plain_config :: "config \<Rightarrow> bool" where
  "plain_config cfg = (url_safe_id (accountId cfg) \<and> url_safe_id (namespaceId cfg))"

subsection \<open>Result envelope\<close>

record content_item =
  content_type :: string
  content_text :: string

record tool_result =
  content :: "content_item list"
  isError :: bool

record envelope =
  toolResult :: tool_result

text \<open>
  Every \<open>return\<close> of the handlers and of the dispatcher is the literal
  \<open>{ toolResult: { content: [{ type: "text", text: t }], isError: e } }\<close>.
\<close>

definition text_envelope :: "string \<Rightarrow> bool \<Rightarrow> envelope" where
  "text_envelope t e =
     \<lparr>toolResult = \<lparr>content = [\<lparr>content_type = ''text'', content_text = t\<rparr>], isError = e\<rparr>\<rparr>"

subsection \<open>API handlers\<close>

text \<open>
  The URL prefix shared by the four template literals, and the URL of a value, used by
  \<open>handleGet\<close>, \<open>handlePut\<close> and \<open>handleDelete\<close>, for a key already converted to a string.
\<close>

definition api_base :: "config \<Rightarrow> string" where
  "api_base cfg =
     ''https://api.cloudflare.com/client/v4/accounts/'' @ template (accountId cfg)
     @ ''/storage/kv/namespaces/'' @ template (namespaceId cfg)"

definition values_url :: "config \<Rightarrow> string \<Rightarrow> string" where
  "values_url cfg k = api_base cfg @ ''/values/'' @ k"

text \<open>
  \<open>handleGet\<close>: the options given to \<open>fetch\<close>, the part after the response has arrived,
  and the whole function.
\<close>

definition handleGet_init :: "config \<Rightarrow> fetch_init" where
  "handleGet_init cfg = \<lparr>
     http_method = None,
     headers = [(''Authorization'', ''Bearer '' @ template (apiToken cfg))],
     body = None,
     query = None\<rparr>"

definition handleGet_response :: "http_response \<Rightarrow> thrown + envelope" where
  "handleGet_response response =
     (if \<not> ok response
      then Inr (text_envelope (''Failed to get value: '' @ statusText response) True)
      else and_then (text_result response) (\<lambda>v. Inr (text_envelope v False)))"

definition handleGet :: "config \<Rightarrow> provider \<Rightarrow> jsval \<Rightarrow> thrown + envelope" where
  "handleGet cfg provider key =
     and_then (ToString key) (\<lambda>k.
     and_then (fetch provider (values_url cfg k) (handleGet_init cfg))
       handleGet_response)"

text \<open>
  \<open>handlePut\<close>.  The spread \<open>...(expirationTtl ? { query: { expiration_ttl:
  expirationTtl } } : {})\<close> adds the field \<open>query\<close> to the options when the argument is
  truthy.  The success text interpolates \<open>key\<close> again, with the same result \<open>k\<close>.
\<close>

definition handlePut_init :: "config \<Rightarrow> jsval \<Rightarrow> jsval \<Rightarrow> fetch_init" where
  "handlePut_init cfg v expirationTtl = \<lparr>
     http_method = Some ''PUT'',
     headers = [(''Authorization'', ''Bearer '' @ template (apiToken cfg)),
                (''Content-Type'', ''text/plain'')],
     body = Some v,
     query = (if truthy expirationTtl then Some [(''expiration_ttl'', expirationTtl)]
              else None)\<rparr>"

definition handlePut_response :: "string \<Rightarrow> http_response \<Rightarrow> thrown + envelope" where
  "handlePut_response k response =
     (if \<not> ok response
      then Inr (text_envelope (''Failed to put value: '' @ statusText response) True)
      else Inr (text_envelope (''Successfully stored value for key: '' @ k) False))"

definition handlePut ::
    "config \<Rightarrow> provider \<Rightarrow> jsval \<Rightarrow> jsval \<Rightarrow> jsval \<Rightarrow> thrown + envelope" where
  "handlePut cfg provider key v expirationTtl =
     and_then (ToString key) (\<lambda>k.
     and_then (fetch provider (values_url cfg k) (handlePut_init cfg v expirationTtl))
       (handlePut_response k))"

text \<open>\<open>handleDelete\<close>.\<close>

definition handleDelete_init :: "config \<Rightarrow> fetch_init" where
  "handleDelete_init cfg = \<lparr>
     http_method = Some ''DELETE'',
     headers = [(''Authorization'', ''Bearer '' @ template (apiToken cfg))],
     body = None,
     query = None\<rparr>"

definition handleDelete_response :: "string \<Rightarrow> http_response \<Rightarrow> thrown + envelope" where
  "handleDelete_response k response =
     (if \<not> ok response
      then Inr (text_envelope (''Failed to delete key: '' @ statusText response) True)
      else Inr (text_envelope (''Successfully deleted key: '' @ k) False))"

definition handleDelete :: "config \<Rightarrow> provider \<Rightarrow> jsval \<Rightarrow> thrown + envelope" where
  "handleDelete cfg provider key =
     and_then (ToString key) (\<lambda>k.
     and_then (fetch provider (values_url cfg k) (handleDelete_init cfg))
       (handleDelete_response k))"

text \<open>
  \<open>handleList\<close>.  First the query parameters: \<open>params\<close> starts empty, \<open>prefix\<close> is
  appended if it is truthy, then \<open>limit.toString()\<close> if \<open>limit\<close> is truthy.
\<close>

definition handleList_params :: "jsval \<Rightarrow> jsval \<Rightarrow> thrown + URLSearchParams" where
  "handleList_params prefix limit =
     and_then (if truthy prefix then URLSearchParams_append [] ''prefix'' prefix else Inr [])
       (\<lambda>params.
     if truthy limit
     then and_then (toString_method ''limit'' limit) (\<lambda>l. URLSearchParams_append params ''limit'' (JStr l))
     else Inr params)"

definition keys_url :: "config \<Rightarrow> URLSearchParams \<Rightarrow> string" where
  "keys_url cfg params = api_base cfg @ ''/keys?'' @ URLSearchParams_toString params"

definition handleList_init :: "config \<Rightarrow> fetch_init" where
  "handleList_init cfg = \<lparr>
     http_method = None,
     headers = [(''Authorization'', ''Bearer '' @ template (apiToken cfg))],
     body = None,
     query = None\<rparr>"

text \<open>
  After the response: the status check, then the parsed body \<open>data\<close>, whose declared type
  \<open>CloudflareListResponse\<close> (\<open>{ result, success, errors, messages }\<close>) is an unchecked
  assertion; then \<open>data.success\<close>, \<open>data.errors.join(', ')\<close>, and
  \<open>data.result.map(item => item.name)\<close>.
\<close>

definition handleList_response :: "http_response \<Rightarrow> thrown + envelope" where
  "handleList_response response =
     (if \<not> ok response
      then Inr (text_envelope (''Failed to list keys: '' @ statusText response) True)
      else
        and_then (json_result response) (\<lambda>data.
        and_then (get_property data ''success'') (\<lambda>success.
        if \<not> truthy success
        then
          and_then (get_property data ''errors'') (\<lambda>errors.
          and_then (join_method ''data.errors'' errors '', '') (\<lambda>joined.
          Inr (text_envelope (''Failed to list keys: '' @ joined) True)))
        else
          and_then (get_property data ''result'') (\<lambda>result.
          and_then (map_method ''data.result'' result (\<lambda>item. get_property item ''name'')) (\<lambda>keys.
          Inr (text_envelope (JSON_stringify_2 keys) False))))))"

definition handleList :: "config \<Rightarrow> provider \<Rightarrow> jsval \<Rightarrow> jsval \<Rightarrow> thrown + envelope" where
  "handleList cfg provider prefix limit =
     and_then (handleList_params prefix limit) (\<lambda>params.
     and_then (fetch provider (keys_url cfg params) (handleList_init cfg))
       handleList_response)"

subsection \<open>Request dispatcher\<close>

text \<open>
  A tool call carries \<open>request.params.name\<close> and \<open>request.params.arguments\<close>
  (\<open>JUndefined\<close> when the request has no arguments).
\<close>

record call_tool_params =
  tool_name :: string
  arguments :: jsval

record call_tool_request =
  params :: call_tool_params

text \<open>
  The body of the \<open>try\<close> block: the \<open>switch\<close> on the name; each case destructures the
  arguments, which throws on \<open>undefined\<close> and \<open>null\<close> (the message names the first
  property of the pattern), and awaits its handler.
\<close>

definition callTool_try :: "config \<Rightarrow> provider \<Rightarrow> call_tool_request \<Rightarrow> thrown + envelope" where
  "callTool_try cfg provider request =
     (if tool_name (params request) = ''kv_get'' then
        and_then (destructure ''request.params.arguments'' (arguments (params request)) ''key'')
          (\<lambda>_.
        handleGet cfg provider (GetV (arguments (params request)) ''key''))
      else if tool_name (params request) = ''kv_put'' then
        and_then (destructure ''request.params.arguments'' (arguments (params request)) ''key'')
          (\<lambda>_.
        handlePut cfg provider
          (GetV (arguments (params request)) ''key'')
          (GetV (arguments (params request)) ''value'')
          (GetV (arguments (params request)) ''expirationTtl''))
      else if tool_name (params request) = ''kv_delete'' then
        and_then (destructure ''request.params.arguments'' (arguments (params request)) ''key'')
          (\<lambda>_.
        handleDelete cfg provider (GetV (arguments (params request)) ''key''))
      else if tool_name (params request) = ''kv_list'' then
        and_then (destructure ''request.params.arguments'' (arguments (params request)) ''prefix'')
          (\<lambda>_.
        handleList cfg provider
          (GetV (arguments (params request)) ''prefix'')
          (GetV (arguments (params request)) ''limit''))
      else
        Inr (text_envelope (''Unknown tool: '' @ tool_name (params request)) True))"

text \<open>
  The handler registered for \<open>CallToolRequestSchema\<close>: the \<open>try\<close> block and its
  \<open>catch\<close>, which answers \<open>Error: \<close> followed by \<open>error.message\<close> for an \<open>Error\<close>
  instance and by \<open>String(error)\<close> otherwise.  The result type keeps the possibility
  of an exception leaving the handler, so that its absence is a theorem.
\<close>

definition callTool :: "config \<Rightarrow> provider \<Rightarrow> call_tool_request \<Rightarrow> thrown + envelope" where
  "callTool cfg provider request =
     (case callTool_try cfg provider request of
        Inr result \<Rightarrow> Inr result
      | Inl error \<Rightarrow>
          Inr (text_envelope
                 (''Error: '' @ (case error of JsError message \<Rightarrow> message | JsNonError s \<Rightarrow> s))
                 True))"

section \<open>Properties\<close>

subsection \<open>Auxiliary facts\<close>

lemma and_then_Inr: "and_then (Inr x) f = f x"
  by (simp add: and_then_def)

lemma and_then_Inl: "and_then (Inl e) f = Inl e"
  by (simp add: and_then_def)

lemma envelope_isError: "isError (toolResult (text_envelope t e)) = e"
  by (simp add: text_envelope_def)

lemma envelope_text: "map content_text (content (toolResult (text_envelope t e))) = [t]"
  by (simp add: text_envelope_def)

lemma collect_map_Inr_of: "collect (map (\<lambda>x. Inr (g x)) xs) = Inr (map g xs)"
  by (induction xs) simp_all

lemma Array_join_strings: "Array_join (map JStr ms) sep = Inr (join_strings sep ms)"
proof -
  have c: "collect (map (\<lambda>v. if v = JUndefined \<or> v = JNull then Inr [] else ToString v)
                     (map JStr ms)) = Inr ms"
    by (induction ms) simp_all
  show ?thesis
    unfolding Array_join_def c by simp
qed

lemma SerializeJSON_strings:
  "SerializeJSON [] (JArr (map JStr names))
   = (if names = [] then ''[]''
      else ''['' @ [CHR 0x0A] @ ''  ''
           @ join_strings ('','' @ [CHR 0x0A] @ ''  '') (map QuoteJSONString names)
           @ [CHR 0x0A] @ '']'')"
  by (simp add: comp_def)

lemma map_method_names:
  assumes "map f items = map (\<lambda>n. Inr (JStr n)) names"
  shows "map_method src (JArr items) f = Inr (JArr (map JStr names))"
proof -
  have "collect (map f items) = Inr (map JStr names)"
    unfolding assms by (rule collect_map_Inr_of)
  then show ?thesis
    by (simp add: map_method_def)
qed

lemma handleList_params_cases:
  "handleList_params prefix limit =
     and_then (if truthy prefix then and_then (ToString prefix) (\<lambda>p. Inr [(''prefix'', p)])
               else Inr [])
       (\<lambda>params.
          if truthy limit
          then and_then (toString_method ''limit'' limit) (\<lambda>l. Inr (params @ [(''limit'', l)]))
          else Inr params)"
  by (simp add: handleList_params_def URLSearchParams_append_def and_then_Inr)

lemma hex_digit_in: "k < 16 \<Longrightarrow> ''0123456789ABCDEF'' ! k \<in> set ''0123456789ABCDEF''"
  by (rule nth_mem) simp

lemma of_char_less_256: "(of_char c :: nat) < 256"
proof -
  have "(of_char c :: nat) mod 256 = of_char c"
    by (rule of_char_mod_256)
  then show ?thesis
    by (metis mod_less_divisor zero_less_numeral)
qed

lemma urlencode_byte_no_hash: "CHR ''#'' \<notin> set (urlencode_byte c)"
proof -
  have "CHR ''#'' \<notin> set ''0123456789ABCDEF''"
    by simp
  then have h: "''0123456789ABCDEF'' ! k \<noteq> CHR ''#''" if "k < 16" for k
    using hex_digit_in [OF that] by metis
  have b1: "(of_char c :: nat) div 16 < 16" and b2: "(of_char c :: nat) mod 16 < 16"
    using of_char_less_256 [of c] by arith+
  have "CHR ''#'' \<noteq> ''0123456789ABCDEF'' ! (of_char c div 16)"
    and "CHR ''#'' \<noteq> ''0123456789ABCDEF'' ! (of_char c mod 16)"
    using h [OF b1] h [OF b2] by (simp_all only: not_sym not_False_eq_True)
  then have "CHR ''#'' \<notin> set (percent_encode c)"
    unfolding percent_encode_def by (simp only: set_simps insert_iff empty_iff) simp
  then show ?thesis
    unfolding urlencode_byte_def by (simp split: if_splits)
qed

lemma urlencode_no_hash: "CHR ''#'' \<notin> set (urlencode s)"
  by (induction s) (simp_all add: urlencode_def urlencode_byte_no_hash)

lemma join_strings_no_hash:
  "CHR ''#'' \<notin> set sep \<Longrightarrow> \<forall>s \<in> set ss. CHR ''#'' \<notin> set s \<Longrightarrow>
   CHR ''#'' \<notin> set (join_strings sep ss)"
  by (induction sep ss rule: join_strings.induct) simp_all

lemma URLSearchParams_toString_no_hash: "CHR ''#'' \<notin> set (URLSearchParams_toString ps)"
  unfolding URLSearchParams_toString_def
  by (rule join_strings_no_hash) (auto simp: urlencode_no_hash)

lemma url_query_append:
  assumes "CHR ''?'' \<notin> set a" and "CHR ''#'' \<notin> set a" and "CHR ''#'' \<notin> set q"
  shows "url_query (a @ ''?'' @ q) = q"
proof -
  have 1: "takeWhile (\<lambda>c. c \<noteq> CHR ''#'') (a @ ''?'' @ q) = a @ ''?'' @ q"
    using assms(2,3) by auto
  have 2: "dropWhile (\<lambda>c. c \<noteq> CHR ''?'') (a @ ''?'' @ q) = ''?'' @ q"
    using assms(1) by (auto simp: dropWhile_append3)
  have 3: "takeWhile (\<lambda>c. c \<noteq> CHR ''#'') q = q"
    using assms(3) by auto
  show ?thesis
    unfolding url_query_def 1 2 using 3 by simp
qed

lemma url_safe_id_template:
  assumes "url_safe_id field"
  shows "CHR ''?'' \<notin> set (template field) \<and> CHR ''#'' \<notin> set (template field)"
proof (cases field)
  case None
  then show ?thesis by (simp add: template_def)
next
  case (Some s)
  with assms have "\<forall>c \<in> set s.
      c \<in> set ''ABCDEFGHIJKLMNOPQRSTUVWXYZabcdefghijklmnopqrstuvwxyz0123456789-_''"
    by (simp add: url_safe_id_def list_all_iff)
  then have "CHR ''?'' \<notin> set s \<and> CHR ''#'' \<notin> set s"
    by fastforce
  with Some show ?thesis by (simp add: template_def)
qed

lemma plain_config_keys_path:
  assumes "plain_config cfg"
  shows "CHR ''?'' \<notin> set (api_base cfg @ ''/keys'')
         \<and> CHR ''#'' \<notin> set (api_base cfg @ ''/keys'')"
  using assms url_safe_id_template [of "accountId cfg"] url_safe_id_template [of "namespaceId cfg"]
  by (simp add: plain_config_def api_base_def)

lemma keys_url_query:
  assumes "plain_config cfg"
  shows "url_query (api_base cfg @ ''/keys?'' @ URLSearchParams_toString ps)
         = URLSearchParams_toString ps"
proof -
  have "url_query ((api_base cfg @ ''/keys'') @ ''?'' @ URLSearchParams_toString ps)
        = URLSearchParams_toString ps"
    using plain_config_keys_path [OF assms] URLSearchParams_toString_no_hash
    by (intro url_query_append) simp_all
  then show ?thesis by simp
qed

lemma handleList_request:
  assumes "handleList_params prefix limit = Inr ps"
  shows "handleList cfg provider prefix limit
   = and_then
       (provider \<lparr>
          req_url = api_base cfg @ ''/keys?'' @ URLSearchParams_toString ps,
          req_method = ''GET'',
          req_headers = [(''Authorization'', ''Bearer '' @ template (apiToken cfg))],
          req_body = None\<rparr>)
       handleList_response"
  using assms
  by (simp add: handleList_def and_then_Inr fetch_def keys_url_def handleList_init_def)

lemma URLSearchParams_toString_forms:
  "URLSearchParams_toString [] = []"
  "URLSearchParams_toString [(''prefix'', p)] = ''prefix='' @ urlencode p"
  "URLSearchParams_toString [(''limit'', l)] = ''limit='' @ urlencode l"
  "URLSearchParams_toString [(''prefix'', p), (''limit'', l)]
   = ''prefix='' @ urlencode p @ ''&limit='' @ urlencode l"
  by (simp_all add: URLSearchParams_toString_def urlencode_def urlencode_byte_def)

text \<open>
  A call of a registered tool whose request has no arguments object throws in the
  destructuring, before any handler runs; this holds for \<open>kv_list\<close> too, although all
  its parameters are optional.
\<close>

lemma registered_tool_without_arguments:
  assumes "tool_name (params request) \<in> set (map name KV_TOOLS)"
    and "arguments (params request) = JUndefined"
  shows "\<exists>message. callTool_try cfg provider request = Inl (JsError message)"
  using assms
  by (auto simp: callTool_try_def destructure_def TypeError_def and_then_Inl KV_TOOLS_def
        KV_GET_TOOL_def KV_PUT_TOOL_def KV_DELETE_TOOL_def KV_LIST_TOOL_def)

subsection \<open>Tool registry\<close>

text \<open>
  Claim C9.  The discovery request returns a fixed, ordered list of exactly four tool
  descriptors, named kv_get, kv_put, kv_delete and kv_list in this order, and the
  \<open>required\<close> field of their input schemas is \<open>["key"]\<close>, \<open>["key", "value"]\<close>,
  \<open>["key"]\<close> and absent, respectively.
\<close>

theorem discovery_lists_four_tools:
  "length (tools listTools) = 4
   \<and> map name (tools listTools) = [''kv_get'', ''kv_put'', ''kv_delete'', ''kv_list'']
   \<and> map (required \<circ> inputSchema) (tools listTools)
       = [Some [''key''], Some [''key'', ''value''], Some [''key''], None]"
  by (simp add: listTools_def KV_TOOLS_def KV_GET_TOOL_def KV_PUT_TOOL_def
        KV_DELETE_TOOL_def KV_LIST_TOOL_def)

subsection \<open>Request dispatcher\<close>

text \<open>
  Claim C2.  Any exception thrown while a tool call is dispatched, whether by the
  extraction of the arguments or inside a handler, is caught by the dispatcher and
  becomes an error envelope (\<open>isError\<close> true) whose text is \<open>Error: \<close> followed by the
  message of the exception, or by the string form of the thrown value when it is not an
  \<open>Error\<close>; the dispatcher itself always returns an envelope and never throws.
\<close>

theorem dispatcher_catches_exceptions:
  "(\<exists>result. callTool cfg provider request = Inr result)
   \<and> (callTool_try cfg provider request = Inl error
      \<longrightarrow> callTool cfg provider request
           = Inr (text_envelope
                    (''Error: '' @ (case error of JsError message \<Rightarrow> message
                                     | JsNonError s \<Rightarrow> s))
                    True))"
  by (simp add: callTool_def split: sum.split)

theorem dispatcher_catches_exceptions_witness:
  "callTool \<lparr>accountId = None, apiToken = None, namespaceId = None\<rparr>
     (\<lambda>_. Inl (JsError ''socket hang up''))
     \<lparr>params = \<lparr>tool_name = ''kv_get'', arguments = JUndefined\<rparr>\<rparr>
   = Inr (text_envelope
            (''Error: Cannot destructure property 'key' of 'request.params.arguments' ''
             @ ''as it is undefined.'')
            True)
   \<and> callTool \<lparr>accountId = None, apiToken = None, namespaceId = None\<rparr>
     (\<lambda>_. Inl (JsError ''socket hang up''))
     \<lparr>params = \<lparr>tool_name = ''kv_get'', arguments = JObj [(''key'', JStr ''k'')]\<rparr>\<rparr>
   = Inr (text_envelope ''Error: socket hang up'' True)"
proof -
  let ?cfg = "\<lparr>accountId = None, apiToken = None, namespaceId = None\<rparr>"
  let ?down = "\<lambda>_ :: http_request. Inl (JsError ''socket hang up'') :: thrown + http_response"
  let ?bare = "\<lparr>params = \<lparr>tool_name = ''kv_get'', arguments = JUndefined\<rparr>\<rparr>"
  let ?full = "\<lparr>params = \<lparr>tool_name = ''kv_get'',
                 arguments = JObj [(''key'', JStr ''k'')]\<rparr>\<rparr>"
  let ?e = "JsError (''Cannot destructure property 'key' of 'request.params.arguments' ''
                     @ ''as it is undefined.'')"
  have h: "callTool_try ?cfg ?down ?bare = Inl ?e"
    by (simp add: callTool_try_def destructure_def TypeError_def quoted_def
          null_or_undefined_def and_then_Inl)
  have g: "callTool_try ?cfg ?down ?full = Inl (JsError ''socket hang up'')"
    by (simp add: callTool_try_def destructure_def GetV_def handleGet_def
          fetch_def and_then_Inr and_then_Inl)
  from dispatcher_catches_exceptions [of ?cfg ?down ?bare ?e] h
       dispatcher_catches_exceptions [of ?cfg ?down ?full "JsError ''socket hang up''"] g
  show ?thesis by simp
qed

text \<open>
  Claim C8.  A tool call whose name is not one of the four registered names is answered
  by the error envelope (\<open>isError\<close> true) with the text \<open>Unknown tool: \<close> followed by
  the requested name; nothing is thrown.
\<close>

theorem unknown_tool_gives_error_envelope:
  "tool_name (params request) \<notin> set (map name KV_TOOLS) \<Longrightarrow>
   callTool cfg provider request
   = Inr (text_envelope (''Unknown tool: '' @ tool_name (params request)) True)"
  by (simp add: callTool_def callTool_try_def KV_TOOLS_def KV_GET_TOOL_def KV_PUT_TOOL_def
        KV_DELETE_TOOL_def KV_LIST_TOOL_def)

theorem unknown_tool_gives_error_envelope_witness:
  "''kv_purge'' \<notin> set (map name KV_TOOLS)
   \<and> callTool \<lparr>accountId = None, apiToken = None, namespaceId = None\<rparr>
       (\<lambda>_. Inl (JsError ''unreachable''))
       \<lparr>params = \<lparr>tool_name = ''kv_purge'', arguments = JObj [(''key'', JStr ''k'')]\<rparr>\<rparr>
     = Inr (text_envelope ''Unknown tool: kv_purge'' True)"
proof -
  have h: "tool_name (params \<lparr>params = \<lparr>tool_name = ''kv_purge'',
             arguments = JObj [(''key'', JStr ''k'')]\<rparr>\<rparr>) \<notin> set (map name KV_TOOLS)"
    by (simp add: KV_TOOLS_def KV_GET_TOOL_def KV_PUT_TOOL_def KV_DELETE_TOOL_def
          KV_LIST_TOOL_def)
  from unknown_tool_gives_error_envelope [OF h] h
  show ?thesis by simp
qed

subsection \<open>Adapters: HTTP outcome\<close>

text \<open>
  Claim C1.  In each of the four operations, when the provider's HTTP response is not
  successful (its status is outside 200 to 299), the handler returns, without throwing,
  the error envelope (\<open>isError\<close> true) whose text is the operation's failure prefix
  followed by the status text of the response.
\<close>

theorem http_failure_gives_error_envelope:
  "\<not> ok response \<Longrightarrow>
   (ToString key = Inr k
      \<and> fetch provider (values_url cfg k) (handleGet_init cfg) = Inr response
    \<longrightarrow> handleGet cfg provider key
         = Inr (text_envelope (''Failed to get value: '' @ statusText response) True))
   \<and> (ToString key = Inr k
      \<and> fetch provider (values_url cfg k) (handlePut_init cfg v expirationTtl) = Inr response
    \<longrightarrow> handlePut cfg provider key v expirationTtl
         = Inr (text_envelope (''Failed to put value: '' @ statusText response) True))
   \<and> (ToString key = Inr k
      \<and> fetch provider (values_url cfg k) (handleDelete_init cfg) = Inr response
    \<longrightarrow> handleDelete cfg provider key
         = Inr (text_envelope (''Failed to delete key: '' @ statusText response) True))
   \<and> (handleList_params prefix limit = Inr ps
      \<and> fetch provider (keys_url cfg ps) (handleList_init cfg) = Inr response
    \<longrightarrow> handleList cfg provider prefix limit
         = Inr (text_envelope (''Failed to list keys: '' @ statusText response) True))"
  by (simp add: handleGet_def handlePut_def handleDelete_def handleList_def
        handleGet_response_def handlePut_response_def handleDelete_response_def
        handleList_response_def and_then_Inr)

theorem http_failure_gives_error_envelope_witness:
  "handleGet \<lparr>accountId = Some ''acc'', apiToken = Some ''tok'', namespaceId = Some ''ns''\<rparr>
     (\<lambda>_. Inr \<lparr>status = 404, statusText = ''Not Found'',
                text_result = Inr ''gone'', json_result = Inr JNull\<rparr>)
     (JStr ''missing-key'')
   = Inr (text_envelope ''Failed to get value: Not Found'' True)
   \<and> handlePut \<lparr>accountId = Some ''acc'', apiToken = Some ''tok'', namespaceId = Some ''ns''\<rparr>
     (\<lambda>_. Inr \<lparr>status = 404, statusText = ''Not Found'',
                text_result = Inr ''gone'', json_result = Inr JNull\<rparr>)
     (JStr ''missing-key'') (JStr ''v'') JUndefined
   = Inr (text_envelope ''Failed to put value: Not Found'' True)
   \<and> handleDelete \<lparr>accountId = Some ''acc'', apiToken = Some ''tok'', namespaceId = Some ''ns''\<rparr>
     (\<lambda>_. Inr \<lparr>status = 404, statusText = ''Not Found'',
                text_result = Inr ''gone'', json_result = Inr JNull\<rparr>)
     (JStr ''missing-key'')
   = Inr (text_envelope ''Failed to delete key: Not Found'' True)
   \<and> handleList \<lparr>accountId = Some ''acc'', apiToken = Some ''tok'', namespaceId = Some ''ns''\<rparr>
     (\<lambda>_. Inr \<lparr>status = 404, statusText = ''Not Found'',
                text_result = Inr ''gone'', json_result = Inr JNull\<rparr>)
     JUndefined JUndefined
   = Inr (text_envelope ''Failed to list keys: Not Found'' True)"
proof -
  let ?r = "\<lparr>status = 404, statusText = ''Not Found'',
             text_result = Inr ''gone'', json_result = Inr JNull\<rparr>"
  have h: "\<not> ok ?r"
    by (simp add: ok_def)
  have p: "handleList_params JUndefined JUndefined = Inr []"
    by (simp add: handleList_params_def and_then_Inr)
  show ?thesis
    using http_failure_gives_error_envelope [OF h, of "JStr ''missing-key''" "''missing-key''"
        "\<lambda>_. Inr ?r" _ _ _ JUndefined JUndefined "[]"] p
    by (simp add: fetch_def)
qed

text \<open>
  Claim C7.  A put or a delete for the key \<open>k\<close> whose HTTP response is successful
  returns the envelope with \<open>isError\<close> false and exactly the text
  \<open>Successfully stored value for key: k\<close>, respectively
  \<open>Successfully deleted key: k\<close>.
\<close>

theorem put_delete_success_text:
  "ok response \<Longrightarrow> ToString key = Inr k \<Longrightarrow>
   (fetch provider (values_url cfg k) (handlePut_init cfg v expirationTtl) = Inr response
    \<longrightarrow> handlePut cfg provider key v expirationTtl
         = Inr (text_envelope (''Successfully stored value for key: '' @ k) False))
   \<and> (fetch provider (values_url cfg k) (handleDelete_init cfg) = Inr response
    \<longrightarrow> handleDelete cfg provider key
         = Inr (text_envelope (''Successfully deleted key: '' @ k) False))"
  by (simp add: handlePut_def handleDelete_def handlePut_response_def
        handleDelete_response_def and_then_Inr)

theorem put_delete_success_text_witness:
  "handlePut \<lparr>accountId = Some ''acc'', apiToken = Some ''tok'', namespaceId = Some ''ns''\<rparr>
     (\<lambda>_. Inr \<lparr>status = 200, statusText = ''OK'',
                text_result = Inr [], json_result = Inr JNull\<rparr>)
     (JStr ''k'') (JStr ''v'') JUndefined
   = Inr (text_envelope ''Successfully stored value for key: k'' False)
   \<and> handleDelete \<lparr>accountId = Some ''acc'', apiToken = Some ''tok'', namespaceId = Some ''ns''\<rparr>
     (\<lambda>_. Inr \<lparr>status = 200, statusText = ''OK'',
                text_result = Inr [], json_result = Inr JNull\<rparr>)
     (JStr ''k'')
   = Inr (text_envelope ''Successfully deleted key: k'' False)"
proof -
  let ?r = "\<lparr>status = 200, statusText = ''OK'',
             text_result = Inr [], json_result = Inr JNull\<rparr>"
  have h: "ok ?r"
    by (simp add: ok_def)
  have t: "ToString (JStr ''k'') = Inr ''k''"
    by simp
  show ?thesis
    using put_delete_success_text [OF h t, of "\<lambda>_. Inr ?r"]
    by (simp add: fetch_def)
qed

subsection \<open>Adapters: the list operation\<close>

text \<open>
  Claim C4.  In the list operation, when the HTTP response is successful but the
  \<open>success\<close> flag of the parsed body is false, the handler returns the error envelope
  (\<open>isError\<close> true) whose text is \<open>Failed to list keys: \<close> followed by the elements of
  the body's \<open>errors\<close> array, converted to strings and joined by a comma and a space; for
  error messages that are strings, these are the messages themselves.
\<close>

theorem list_provider_failure_gives_error_envelope:
  assumes "ok response"
    and "json_result response = Inr data"
    and "get_property data ''success'' = Inr success"
    and "\<not> truthy success"
    and "get_property data ''errors'' = Inr (JArr errors)"
    and "Array_join errors '', '' = Inr joined"
    and "handleList_params prefix limit = Inr ps"
    and "fetch provider (keys_url cfg ps) (handleList_init cfg) = Inr response"
  shows "handleList cfg provider prefix limit
           = Inr (text_envelope (''Failed to list keys: '' @ joined) True)
         \<and> (errors = map JStr messages \<longrightarrow> joined = join_strings '', '' messages)"
proof -
  have "handleList cfg provider prefix limit = handleList_response response"
    using assms(7,8) by (simp add: handleList_def and_then_Inr)
  also have "\<dots> = Inr (text_envelope (''Failed to list keys: '' @ joined) True)"
    using assms(1-6) by (simp add: handleList_response_def join_method_def and_then_Inr)
  finally have first: "handleList cfg provider prefix limit
                       = Inr (text_envelope (''Failed to list keys: '' @ joined) True)" .
  have "joined = join_strings '', '' messages" if "errors = map JStr messages"
    using assms(6) that by (simp add: Array_join_strings)
  with first show ?thesis
    by simp
qed

theorem list_provider_failure_gives_error_envelope_witness:
  "handleList \<lparr>accountId = Some ''acc'', apiToken = Some ''tok'', namespaceId = Some ''ns''\<rparr>
     (\<lambda>_. Inr \<lparr>status = 200, statusText = ''OK'', text_result = Inr [],
                json_result = Inr (JObj [
                  (''success'', JBool False),
                  (''errors'', JArr [JStr ''bad namespace'', JStr ''try again''])])\<rparr>)
     JUndefined JUndefined
   = Inr (text_envelope ''Failed to list keys: bad namespace, try again'' True)"
proof -
  let ?data = "JObj [(''success'', JBool False),
                     (''errors'', JArr [JStr ''bad namespace'', JStr ''try again''])]"
  let ?r = "\<lparr>status = 200, statusText = ''OK'', text_result = Inr [],
             json_result = Inr ?data\<rparr>"
  let ?cfg = "\<lparr>accountId = Some ''acc'', apiToken = Some ''tok'', namespaceId = Some ''ns''\<rparr>"
  have h1: "ok ?r"
    by (simp add: ok_def)
  have h2: "json_result ?r = Inr ?data"
    by simp
  have h3: "get_property ?data ''success'' = Inr (JBool False)"
    by (simp add: get_property_def GetV_def)
  have h4: "\<not> truthy (JBool False)"
    by simp
  have h5: "get_property ?data ''errors''
            = Inr (JArr [JStr ''bad namespace'', JStr ''try again''])"
    by (simp add: get_property_def GetV_def)
  have h6: "Array_join [JStr ''bad namespace'', JStr ''try again''] '', ''
            = Inr ''bad namespace, try again''"
    by (simp add: Array_join_def)
  have h7: "handleList_params JUndefined JUndefined = Inr []"
    by (simp add: handleList_params_def and_then_Inr)
  have h8: "fetch (\<lambda>_. Inr ?r) (keys_url ?cfg []) (handleList_init ?cfg) = Inr ?r"
    by (simp add: fetch_def)
  from list_provider_failure_gives_error_envelope
         [OF h1 h2 h3 h4 h5 h6 h7 h8, where messages = "[''bad namespace'', ''try again'']"]
  show ?thesis
    by simp
qed

text \<open>
  Claim C5.  In the list operation, when the HTTP response is successful and the
  \<open>success\<close> flag of the parsed body is true, the handler returns the envelope with
  \<open>isError\<close> false whose text is the array of the \<open>name\<close> fields of the entries of
  \<open>result\<close>, in the order of the response, printed as JSON with an indentation of two
  spaces.  The text is determined by the names alone: whatever else an entry holds
  (\<open>expiration\<close>, \<open>metadata\<close>) does not appear.
\<close>

theorem list_success_gives_key_names:
  assumes "ok response"
    and "json_result response = Inr data"
    and "get_property data ''success'' = Inr success"
    and "truthy success"
    and "get_property data ''result'' = Inr (JArr items)"
    and "map (\<lambda>item. get_property item ''name'') items = map (\<lambda>n. Inr (JStr n)) names"
    and "handleList_params prefix limit = Inr ps"
    and "fetch provider (keys_url cfg ps) (handleList_init cfg) = Inr response"
  shows "handleList cfg provider prefix limit
         = Inr (text_envelope
                  (if names = [] then ''[]''
                   else ''['' @ [CHR 0x0A] @ ''  ''
                        @ join_strings ('','' @ [CHR 0x0A] @ ''  '') (map QuoteJSONString names)
                        @ [CHR 0x0A] @ '']'')
                  False)"
proof -
  have "handleList cfg provider prefix limit = handleList_response response"
    using assms(7,8) by (simp add: handleList_def and_then_Inr)
  also have "\<dots> = Inr (text_envelope (JSON_stringify_2 (JArr (map JStr names))) False)"
    using assms(1-5) map_method_names [OF assms(6)]
    by (simp add: handleList_response_def and_then_Inr)
  finally show ?thesis
    by (simp only: JSON_stringify_2_def SerializeJSON_strings)
qed

theorem list_success_gives_key_names_witness:
  "handleList \<lparr>accountId = Some ''acc'', apiToken = Some ''tok'', namespaceId = Some ''ns''\<rparr>
     (\<lambda>_. Inr \<lparr>status = 200, statusText = ''OK'', text_result = Inr [],
                json_result = Inr (JObj [
                  (''success'', JBool True),
                  (''result'', JArr [
                     JObj [(''name'', JStr ''a''), (''expiration'', JNum 1700000000),
                           (''metadata'', JObj [(''owner'', JStr ''x'')])],
                     JObj [(''name'', JStr ''b'')]]),
                  (''errors'', JArr []),
                  (''messages'', JArr [])])\<rparr>)
     JUndefined JUndefined
   = Inr (text_envelope
            [CHR ''['', CHR 0x0A, CHR '' '', CHR '' '', CHR 0x22, CHR ''a'', CHR 0x22, CHR '','',
             CHR 0x0A, CHR '' '', CHR '' '', CHR 0x22, CHR ''b'', CHR 0x22, CHR 0x0A, CHR '']'']
            False)"
proof -
  let ?data = "JObj [
                  (''success'', JBool True),
                  (''result'', JArr [
                     JObj [(''name'', JStr ''a''), (''expiration'', JNum 1700000000),
                           (''metadata'', JObj [(''owner'', JStr ''x'')])],
                     JObj [(''name'', JStr ''b'')]]),
                  (''errors'', JArr []),
                  (''messages'', JArr [])]"
  let ?r = "\<lparr>status = 200, statusText = ''OK'', text_result = Inr [],
             json_result = Inr ?data\<rparr>"
  let ?cfg = "\<lparr>accountId = Some ''acc'', apiToken = Some ''tok'', namespaceId = Some ''ns''\<rparr>"
  have h1: "ok ?r"
    by (simp add: ok_def)
  have h2: "json_result ?r = Inr ?data"
    by simp
  have h3: "get_property ?data ''success'' = Inr (JBool True)"
    by (simp add: get_property_def GetV_def)
  have h4: "truthy (JBool True)"
    by simp
  have h5: "get_property ?data ''result''
            = Inr (JArr [
                     JObj [(''name'', JStr ''a''), (''expiration'', JNum 1700000000),
                           (''metadata'', JObj [(''owner'', JStr ''x'')])],
                     JObj [(''name'', JStr ''b'')]])"
    by (simp add: get_property_def GetV_def)
  have h6: "map (\<lambda>item. get_property item ''name'')
              [JObj [(''name'', JStr ''a''), (''expiration'', JNum 1700000000),
                     (''metadata'', JObj [(''owner'', JStr ''x'')])],
               JObj [(''name'', JStr ''b'')]]
            = map (\<lambda>n. Inr (JStr n)) [''a'', ''b'']"
    by (simp add: get_property_def GetV_def)
  have h7: "handleList_params JUndefined JUndefined = Inr []"
    by (simp add: handleList_params_def and_then_Inr)
  have h8: "fetch (\<lambda>_. Inr ?r) (keys_url ?cfg []) (handleList_init ?cfg) = Inr ?r"
    by (simp add: fetch_def)
  from list_success_gives_key_names [OF h1 h2 h3 h4 h5 h6 h7 h8]
  show ?thesis
    by (simp add: QuoteJSONString_def json_escape_def)
qed

text \<open>
  Claim C6.  In the list operation, \<open>prefix\<close> and \<open>limit\<close> are appended to the query
  string of the request only when they are present.  On the parameter list: an absent
  \<open>prefix\<close> (respectively \<open>limit\<close>) leaves no parameter of that name, not even an empty
  one, while a non-empty prefix and a non-zero limit are appended under their names, and
  a call with no arguments has the empty list.  On the request: for a plain
  configuration, the URL requested is the fixed path followed by \<open>/keys?\<close> and the
  serialised parameter list, and that list is its whole query component; the
  serialisation is empty for the empty list, \<open>prefix=\<dots>\<close> or \<open>limit=\<dots>\<close> for a single
  parameter and \<open>prefix=\<dots>&limit=\<dots>\<close> for both, with the values form-urlencoded.  The
  dispatcher makes the call with no arguments for a \<open>kv_list\<close> request whose arguments
  are the empty object.
\<close>

theorem list_query_only_present_parameters:
  "(handleList_params JUndefined limit = Inr ps \<longrightarrow> ''prefix'' \<notin> fst ` set ps)
   \<and> (handleList_params prefix JUndefined = Inr ps \<longrightarrow> ''limit'' \<notin> fst ` set ps)
   \<and> (p \<noteq> [] \<longrightarrow> handleList_params (JStr p) JUndefined = Inr [(''prefix'', p)])
   \<and> (n \<noteq> 0 \<longrightarrow> handleList_params JUndefined (JNum n) = Inr [(''limit'', Number_toString n)])
   \<and> (p \<noteq> [] \<and> n \<noteq> 0 \<longrightarrow>
        handleList_params (JStr p) (JNum n)
        = Inr [(''prefix'', p), (''limit'', Number_toString n)])
   \<and> handleList_params JUndefined JUndefined = Inr []
   \<and> URLSearchParams_toString [] = []
   \<and> URLSearchParams_toString [(''prefix'', p)] = ''prefix='' @ urlencode p
   \<and> URLSearchParams_toString [(''limit'', l)] = ''limit='' @ urlencode l
   \<and> URLSearchParams_toString [(''prefix'', p), (''limit'', l)]
       = ''prefix='' @ urlencode p @ ''&limit='' @ urlencode l
   \<and> (plain_config cfg \<and> handleList_params prefix limit = Inr qs \<longrightarrow>
        handleList cfg provider prefix limit
        = and_then
            (provider \<lparr>
               req_url = api_base cfg @ ''/keys?'' @ URLSearchParams_toString qs,
               req_method = ''GET'',
               req_headers = [(''Authorization'', ''Bearer '' @ template (apiToken cfg))],
               req_body = None\<rparr>)
            handleList_response
        \<and> url_query (api_base cfg @ ''/keys?'' @ URLSearchParams_toString qs)
            = URLSearchParams_toString qs)
   \<and> callTool_try cfg provider \<lparr>params = \<lparr>tool_name = ''kv_list'', arguments = JObj []\<rparr>\<rparr>
       = handleList cfg provider JUndefined JUndefined"
proof -
  have a: "''prefix'' \<notin> fst ` set ps" if "handleList_params JUndefined limit = Inr ps"
    using that
    by (auto simp: handleList_params_cases and_then_def split: if_splits sum.splits)
  have b: "''limit'' \<notin> fst ` set ps" if "handleList_params prefix JUndefined = Inr ps"
    using that
    by (auto simp: handleList_params_cases and_then_def split: if_splits sum.splits)
  have c: "handleList_params (JStr p) JUndefined = Inr [(''prefix'', p)]" if "p \<noteq> []"
    using that by (simp add: handleList_params_cases and_then_Inr)
  have d: "handleList_params JUndefined (JNum n) = Inr [(''limit'', Number_toString n)]"
    if "n \<noteq> 0"
    using that by (simp add: handleList_params_cases toString_method_def and_then_Inr)
  have e: "handleList_params (JStr p) (JNum n)
           = Inr [(''prefix'', p), (''limit'', Number_toString n)]" if "p \<noteq> []" "n \<noteq> 0"
    using that by (simp add: handleList_params_cases toString_method_def and_then_Inr)
  have f: "handleList_params JUndefined JUndefined = Inr []"
    by (simp add: handleList_params_cases and_then_Inr)
  have g: "handleList cfg provider prefix limit
           = and_then
               (provider \<lparr>
                  req_url = api_base cfg @ ''/keys?'' @ URLSearchParams_toString qs,
                  req_method = ''GET'',
                  req_headers = [(''Authorization'', ''Bearer '' @ template (apiToken cfg))],
                  req_body = None\<rparr>)
               handleList_response
           \<and> url_query (api_base cfg @ ''/keys?'' @ URLSearchParams_toString qs)
               = URLSearchParams_toString qs"
    if "plain_config cfg" "handleList_params prefix limit = Inr qs"
    using handleList_request [OF that(2)] keys_url_query [OF that(1)] by simp
  have h: "callTool_try cfg provider
             \<lparr>params = \<lparr>tool_name = ''kv_list'', arguments = JObj []\<rparr>\<rparr>
           = handleList cfg provider JUndefined JUndefined"
    by (simp add: callTool_try_def destructure_def GetV_def and_then_Inr)
  from a b c d e f g h URLSearchParams_toString_forms show ?thesis
    by blast
qed

theorem list_query_only_present_parameters_witness:
  "plain_config \<lparr>accountId = Some ''acc'', apiToken = Some ''tok'', namespaceId = Some ''ns''\<rparr>
   \<and> handleList_params JUndefined JUndefined = Inr []
   \<and> handleList_params JUndefined (JNum 10) = Inr [(''limit'', ''10'')]
   \<and> handleList_params (JStr ''a'') JUndefined = Inr [(''prefix'', ''a'')]
   \<and> handleList_params (JStr ''a'') (JNum 10) = Inr [(''prefix'', ''a''), (''limit'', ''10'')]
   \<and> ''prefix'' \<notin> fst ` set [(''limit'', ''10'')]
   \<and> ''limit'' \<notin> fst ` set [(''prefix'', ''a'')]
   \<and> (\<forall>provider.
        handleList
          \<lparr>accountId = Some ''acc'', apiToken = Some ''tok'', namespaceId = Some ''ns''\<rparr>
          provider (JStr ''a'') (JNum 10)
        = and_then
            (provider \<lparr>
               req_url = ''https://api.cloudflare.com/client/v4/accounts/acc/storage/kv/namespaces/ns/keys?prefix=a&limit=10'',
               req_method = ''GET'',
               req_headers = [(''Authorization'', ''Bearer tok'')],
               req_body = None\<rparr>)
            handleList_response)
   \<and> url_query
         ''https://api.cloudflare.com/client/v4/accounts/acc/storage/kv/namespaces/ns/keys?prefix=a&limit=10''
       = ''prefix=a&limit=10''
   \<and> (\<forall>provider.
        handleList
          \<lparr>accountId = Some ''acc'', apiToken = Some ''tok'', namespaceId = Some ''ns''\<rparr>
          provider JUndefined JUndefined
        = and_then
            (provider \<lparr>
               req_url = ''https://api.cloudflare.com/client/v4/accounts/acc/storage/kv/namespaces/ns/keys?'',
               req_method = ''GET'',
               req_headers = [(''Authorization'', ''Bearer tok'')],
               req_body = None\<rparr>)
            handleList_response)
   \<and> url_query
         ''https://api.cloudflare.com/client/v4/accounts/acc/storage/kv/namespaces/ns/keys?''
       = []"
proof -
  let ?cfg = "\<lparr>accountId = Some ''acc'', apiToken = Some ''tok'', namespaceId = Some ''ns''\<rparr>"
  have n: "Number_toString 10 = ''10''"
    by (simp add: Number_toString_def)
  have u: "urlencode ''a'' = ''a''" "urlencode ''10'' = ''10''"
    by (simp_all add: urlencode_def urlencode_byte_def)
  have pc: "plain_config ?cfg"
    by (simp add: plain_config_def url_safe_id_def)
  have b: "api_base ?cfg
           = ''https://api.cloudflare.com/client/v4/accounts/acc/storage/kv/namespaces/ns''"
    by (simp add: api_base_def template_def)
  have h0: "handleList_params JUndefined JUndefined = Inr []"
    by (simp add: handleList_params_cases and_then_Inr)
  have h1: "handleList_params JUndefined (JNum 10) = Inr [(''limit'', ''10'')]"
    by (simp add: handleList_params_cases toString_method_def and_then_Inr n)
  have h2: "handleList_params (JStr ''a'') JUndefined = Inr [(''prefix'', ''a'')]"
    by (simp add: handleList_params_cases and_then_Inr)
  have h3: "handleList_params (JStr ''a'') (JNum 10)
            = Inr [(''prefix'', ''a''), (''limit'', ''10'')]"
    by (simp add: handleList_params_cases toString_method_def and_then_Inr n)
  have w1: "''prefix'' \<notin> fst ` set [(''limit'', ''10'')]"
    using list_query_only_present_parameters
            [of "JNum 10" "[(''limit'', ''10'')]" "JStr ''a''" "''a''" 10 "''10''" ?cfg
                "[(''prefix'', ''a''), (''limit'', ''10'')]"] h1
    by blast
  have w2: "''limit'' \<notin> fst ` set [(''prefix'', ''a'')]"
    using list_query_only_present_parameters
            [of JUndefined "[(''prefix'', ''a'')]" "JStr ''a''" "''a''" 10 "''10''" ?cfg
                "[(''prefix'', ''a''), (''limit'', ''10'')]"] h2
    by blast
  have q: "URLSearchParams_toString [(''prefix'', ''a''), (''limit'', ''10'')]
           = ''prefix=a&limit=10''"
    by (simp add: URLSearchParams_toString_def urlencode_def urlencode_byte_def)
  have q0: "URLSearchParams_toString [] = []"
    by (simp add: URLSearchParams_toString_def)
  have w3: "handleList ?cfg provider (JStr ''a'') (JNum 10)
        = and_then
            (provider \<lparr>
               req_url = ''https://api.cloudflare.com/client/v4/accounts/acc/storage/kv/namespaces/ns/keys?prefix=a&limit=10'',
               req_method = ''GET'',
               req_headers = [(''Authorization'', ''Bearer tok'')],
               req_body = None\<rparr>)
            handleList_response
        \<and> url_query
         ''https://api.cloudflare.com/client/v4/accounts/acc/storage/kv/namespaces/ns/keys?prefix=a&limit=10''
          = ''prefix=a&limit=10''" for provider
  proof -
    from list_query_only_present_parameters
            [of "JNum 10" "[(''limit'', ''10'')]" "JStr ''a''" "''a''" 10 "''10''" ?cfg
                "[(''prefix'', ''a''), (''limit'', ''10'')]" provider] pc h3
    have "handleList ?cfg provider (JStr ''a'') (JNum 10)
        = and_then
            (provider \<lparr>
               req_url = api_base ?cfg @ ''/keys?''
                         @ URLSearchParams_toString [(''prefix'', ''a''), (''limit'', ''10'')],
               req_method = ''GET'',
               req_headers = [(''Authorization'', ''Bearer '' @ template (apiToken ?cfg))],
               req_body = None\<rparr>)
            handleList_response
        \<and> url_query (api_base ?cfg @ ''/keys?''
                      @ URLSearchParams_toString [(''prefix'', ''a''), (''limit'', ''10'')])
          = URLSearchParams_toString [(''prefix'', ''a''), (''limit'', ''10'')]"
      by blast
    then show ?thesis
      unfolding q b by (simp add: template_def)
  qed
  have w4: "handleList ?cfg provider JUndefined JUndefined
        = and_then
            (provider \<lparr>
               req_url = ''https://api.cloudflare.com/client/v4/accounts/acc/storage/kv/namespaces/ns/keys?'',
               req_method = ''GET'',
               req_headers = [(''Authorization'', ''Bearer tok'')],
               req_body = None\<rparr>)
            handleList_response
        \<and> url_query
         ''https://api.cloudflare.com/client/v4/accounts/acc/storage/kv/namespaces/ns/keys?''
          = []" for provider
  proof -
    from list_query_only_present_parameters
            [of JUndefined "[]" JUndefined "''a''" 10 "''10''" ?cfg "[]" provider] pc h0
    have "handleList ?cfg provider JUndefined JUndefined
        = and_then
            (provider \<lparr>
               req_url = api_base ?cfg @ ''/keys?'' @ URLSearchParams_toString [],
               req_method = ''GET'',
               req_headers = [(''Authorization'', ''Bearer '' @ template (apiToken ?cfg))],
               req_body = None\<rparr>)
            handleList_response
        \<and> url_query (api_base ?cfg @ ''/keys?'' @ URLSearchParams_toString [])
          = URLSearchParams_toString []"
      by blast
    then show ?thesis
      unfolding q0 b by (simp add: template_def)
  qed
  from pc h0 h1 h2 h3 w1 w2 w3 w4 show ?thesis
    by blast
qed

text \<open>
  Claim C10.  In the list operation, a parameter that is supplied but falsy is treated
  exactly as an absent one: with the limit \<open>0\<close> no \<open>limit\<close> parameter is sent, with the
  empty prefix no \<open>prefix\<close> parameter is sent, and the call with both is the call with
  no arguments.
\<close>

theorem list_query_omits_falsy_parameters:
  "(\<not> truthy prefix \<longrightarrow> handleList_params prefix limit = handleList_params JUndefined limit)
   \<and> (\<not> truthy limit \<longrightarrow> handleList_params prefix limit = handleList_params prefix JUndefined)
   \<and> (handleList_params (JStr []) limit = Inr ps \<longrightarrow> ''prefix'' \<notin> fst ` set ps)
   \<and> (handleList_params prefix (JNum 0) = Inr ps \<longrightarrow> ''limit'' \<notin> fst ` set ps)
   \<and> handleList cfg provider (JStr []) (JNum 0) = handleList cfg provider JUndefined JUndefined"
proof -
  have a: "handleList_params prefix limit = handleList_params JUndefined limit"
    if "\<not> truthy prefix"
    using that by (simp add: handleList_params_cases)
  have b: "handleList_params prefix limit = handleList_params prefix JUndefined"
    if "\<not> truthy limit"
    using that by (simp add: handleList_params_cases)
  have c: "''prefix'' \<notin> fst ` set ps" if "handleList_params (JStr []) limit = Inr ps"
    using that
    by (auto simp: handleList_params_cases and_then_def split: if_splits sum.splits)
  have d: "''limit'' \<notin> fst ` set ps" if "handleList_params prefix (JNum 0) = Inr ps"
    using that
    by (auto simp: handleList_params_cases and_then_def split: if_splits sum.splits)
  have e: "handleList cfg provider (JStr []) (JNum 0)
           = handleList cfg provider JUndefined JUndefined"
    by (simp add: handleList_def handleList_params_cases)
  from a b c d e show ?thesis
    by blast
qed

theorem list_query_omits_falsy_parameters_witness:
  "\<not> truthy (JStr []) \<and> \<not> truthy (JNum 0)
   \<and> handleList_params (JStr []) (JNum 10) = Inr [(''limit'', ''10'')]
   \<and> handleList_params (JStr []) (JNum 10) = handleList_params JUndefined (JNum 10)
   \<and> handleList_params (JStr ''a'') (JNum 0) = Inr [(''prefix'', ''a'')]
   \<and> handleList_params (JStr ''a'') (JNum 0) = handleList_params (JStr ''a'') JUndefined
   \<and> ''prefix'' \<notin> fst ` set [(''limit'', ''10'')]
   \<and> ''limit'' \<notin> fst ` set [(''prefix'', ''a'')]"
proof -
  have h1: "\<not> truthy (JStr [])" and h2: "\<not> truthy (JNum 0)"
    by simp_all
  have h3: "handleList_params (JStr []) (JNum 10) = Inr [(''limit'', ''10'')]"
    by (simp add: handleList_params_cases toString_method_def and_then_Inr
          Number_toString_def)
  have h4: "handleList_params (JStr ''a'') (JNum 0) = Inr [(''prefix'', ''a'')]"
    by (simp add: handleList_params_cases and_then_Inr)
  from list_query_omits_falsy_parameters
         [of "JStr []" "JNum 10" "[(''limit'', ''10'')]"]
       list_query_omits_falsy_parameters
         [of "JStr ''a''" "JNum 0" "[(''prefix'', ''a'')]"]
       h1 h2 h3 h4
  show ?thesis
    by simp
qed

subsection \<open>Adapters: the expiration of a put\<close>

text \<open>
  Claim C3, evaluated on the code.  A put of the value \<open>v\<close> under the key \<open>k\<close> with
  \<open>expirationTtl = 60\<close> places \<open>{ expiration_ttl: 60 }\<close> in the field \<open>query\<close> of the
  options given to \<open>fetch\<close>, but the request that reaches the provider has a URL
  without a query component and carries the expiration nowhere: whatever the provider
  does, the call is answered as the same call without an expiration.
\<close>

theorem put_expiration_not_transmitted:
  "query (handlePut_init
            \<lparr>accountId = Some ''acc'', apiToken = Some ''tok'', namespaceId = Some ''ns''\<rparr>
            (JStr ''v'') (JNum 60))
   = Some [(''expiration_ttl'', JNum 60)]
   \<and> (\<forall>provider.
        handlePut
          \<lparr>accountId = Some ''acc'', apiToken = Some ''tok'', namespaceId = Some ''ns''\<rparr>
          provider (JStr ''k'') (JStr ''v'') (JNum 60)
        = and_then
            (provider \<lparr>
               req_url = ''https://api.cloudflare.com/client/v4/accounts/acc/storage/kv/namespaces/ns/values/k'',
               req_method = ''PUT'',
               req_headers = [(''Authorization'', ''Bearer tok''),
                              (''Content-Type'', ''text/plain'')],
               req_body = Some (JStr ''v'')\<rparr>)
            (handlePut_response ''k'')
        \<and> handlePut
            \<lparr>accountId = Some ''acc'', apiToken = Some ''tok'', namespaceId = Some ''ns''\<rparr>
            provider (JStr ''k'') (JStr ''v'') (JNum 60)
          = handlePut
              \<lparr>accountId = Some ''acc'', apiToken = Some ''tok'', namespaceId = Some ''ns''\<rparr>
              provider (JStr ''k'') (JStr ''v'') JUndefined)
   \<and> url_query
        ''https://api.cloudflare.com/client/v4/accounts/acc/storage/kv/namespaces/ns/values/k''
     = []"
  by (simp add: handlePut_def handlePut_init_def fetch_def values_url_def api_base_def
        template_def url_query_def and_then_Inr)

end
